theory Spec2Isabelle
  imports Complex_Main
begin

section \<open>Exceptions and results\<close>

text \<open>
  Every exception the modelled code can raise is a value. A call returns
  \<open>Inl e\<close> when it raises \<open>e\<close> and \<open>Inr v\<close> when it returns \<open>v\<close>.
  \<open>RuntimeError\<close> is what the tensor library raises on incompatible shapes.
\<close>

datatype py_error =
    AttributeError
  | TypeError
  | UnboundLocalError
  | RuntimeError
  | ZeroDivisionError

definition and_then :: "'e + 'a \<Rightarrow> ('a \<Rightarrow> 'e + 'b) \<Rightarrow> 'e + 'b" where
  "and_then m f = (case m of Inl e \<Rightarrow> Inl e | Inr x \<Rightarrow> f x)"

text \<open>Reading an instance attribute that was never assigned raises AttributeError.\<close>

definition getattr :: "'a option \<Rightarrow> py_error + 'a" where
  "getattr a = (case a of None \<Rightarrow> Inl AttributeError | Some x \<Rightarrow> Inr x)"

section \<open>Tensors\<close>

text \<open>
  A tensor is its shape together with its entries, over exact real arithmetic
  (rounding, infinities and NaN of the machine floats are not modelled).
  Entries outside the shape do not exist in the program; the constructors
  \<open>mk1\<close>, \<open>mk2\<close>, \<open>mk3\<close> fix them to 0 so that two tensors are equal exactly when
  their shapes and their entries inside the shape agree.
\<close>

record tensor1 =
  length1 :: nat
  elem1 :: "nat \<Rightarrow> real"

record tensor2 =
  rows2 :: nat
  cols2 :: nat
  elem2 :: "nat \<Rightarrow> nat \<Rightarrow> real"

record tensor3 =
  size0 :: nat
  size1 :: nat
  size2 :: nat
  elem3 :: "nat \<Rightarrow> nat \<Rightarrow> nat \<Rightarrow> real"

datatype any_tensor = Tensor2 tensor2 | Tensor3 tensor3

definition mk1 :: "nat \<Rightarrow> (nat \<Rightarrow> real) \<Rightarrow> tensor1" where
  "mk1 n f = \<lparr>length1 = n, elem1 = (\<lambda>i. if i < n then f i else 0)\<rparr>"

definition mk2 :: "nat \<Rightarrow> nat \<Rightarrow> (nat \<Rightarrow> nat \<Rightarrow> real) \<Rightarrow> tensor2" where
  "mk2 a b f =
     \<lparr>rows2 = a, cols2 = b, elem2 = (\<lambda>i j. if i < a \<and> j < b then f i j else 0)\<rparr>"

definition mk3 :: "nat \<Rightarrow> nat \<Rightarrow> nat \<Rightarrow> (nat \<Rightarrow> nat \<Rightarrow> nat \<Rightarrow> real) \<Rightarrow> tensor3" where
  "mk3 a b c f =
     \<lparr>size0 = a, size1 = b, size2 = c,
      elem3 = (\<lambda>i j k. if i < a \<and> j < b \<and> k < c then f i j k else 0)\<rparr>"

definition is_tensor3 :: "tensor3 \<Rightarrow> bool" where
  "is_tensor3 x = (x = mk3 (size0 x) (size1 x) (size2 x) (elem3 x))"

subsection \<open>Library operations used by the attention modules\<close>

text \<open>
  \<open>nn.Conv1d\<close> with stride 1, no padding, no dilation, one group. The weight has
  shape [out_channels, in_channels, kernel_size]. The call raises when the input's
  channel axis is not in_channels or the sequence is shorter than the kernel.
\<close>

record conv1d =
  conv_weight :: tensor3
  conv_bias :: tensor1

definition Conv1d_forward :: "conv1d \<Rightarrow> tensor3 \<Rightarrow> py_error + tensor3" where
  "Conv1d_forward m X =
     (let W = conv_weight m in
      if size1 X \<noteq> size1 W then Inl RuntimeError
      else if size2 X < size2 W then Inl RuntimeError
      else Inr (mk3 (size0 X) (size0 W) (size2 X - size2 W + 1)
             (\<lambda>b oc l. (\<Sum>c<size1 W. \<Sum>k<size2 W. elem3 W oc c k * elem3 X b c (l + k))
                        + elem1 (conv_bias m) oc)))"

text \<open>\<open>nn.Linear\<close> on the last axis of a 3-axis input; weight [out_features, in_features].\<close>

record linear =
  lin_weight :: tensor2
  lin_bias :: tensor1

definition Linear_forward :: "linear \<Rightarrow> tensor3 \<Rightarrow> py_error + tensor3" where
  "Linear_forward m X =
     (let W = lin_weight m in
      if size2 X \<noteq> cols2 W then Inl RuntimeError
      else Inr (mk3 (size0 X) (size1 X) (rows2 W)
             (\<lambda>b i oc. (\<Sum>c<cols2 W. elem3 X b i c * elem2 W oc c) + elem1 (lin_bias m) oc)))"

definition elu :: "real \<Rightarrow> real" where
  "elu x = (if x > 0 then x else exp x - 1)"

definition F_elu :: "tensor3 \<Rightarrow> tensor3" where
  "F_elu X = mk3 (size0 X) (size1 X) (size2 X) (\<lambda>b i j. elu (elem3 X b i j))"

definition permute_0_2_1 :: "tensor3 \<Rightarrow> tensor3" where
  "permute_0_2_1 X = mk3 (size0 X) (size2 X) (size1 X) (\<lambda>b i j. elem3 X b j i)"

text \<open>\<open>Q.matmul(X)\<close> for a 2-axis \<open>Q\<close> and a 3-axis \<open>X\<close>: \<open>Q\<close> is broadcast over the batch.\<close>

definition matmul_2_3 :: "tensor2 \<Rightarrow> tensor3 \<Rightarrow> py_error + tensor3" where
  "matmul_2_3 Q X =
     (if cols2 Q \<noteq> size1 X then Inl RuntimeError
      else Inr (mk3 (size0 X) (rows2 Q) (size2 X)
             (\<lambda>b i j. \<Sum>c<cols2 Q. elem2 Q i c * elem3 X b c j)))"

text \<open>
  \<open>torch.bmm(X, Y)\<close>, and \<open>X.matmul(Y)\<close> for two 3-axis tensors: the forward pass
  only ever calls the latter with both batch sizes taken from the same input.
\<close>

definition bmm :: "tensor3 \<Rightarrow> tensor3 \<Rightarrow> py_error + tensor3" where
  "bmm X Y =
     (if size0 X = size0 Y \<and> size2 X = size1 Y
      then Inr (mk3 (size0 X) (size1 X) (size2 Y)
             (\<lambda>b i j. \<Sum>c<size2 X. elem3 X b i c * elem3 Y b c j))
      else Inl RuntimeError)"

definition div_scalar :: "tensor3 \<Rightarrow> real \<Rightarrow> tensor3" where
  "div_scalar X r = mk3 (size0 X) (size1 X) (size2 X) (\<lambda>b i j. elem3 X b i j / r)"

definition softmax_last :: "tensor3 \<Rightarrow> tensor3" where
  "softmax_last E =
     mk3 (size0 E) (size1 E) (size2 E)
       (\<lambda>b i j. exp (elem3 E b i j) / (\<Sum>j'<size2 E. exp (elem3 E b i j')))"

text \<open>\<open>torch.unsqueeze(Q, dim=0).repeat(n, 1, 1)\<close>.\<close>

definition unsqueeze_repeat :: "tensor2 \<Rightarrow> nat \<Rightarrow> tensor3" where
  "unsqueeze_repeat Q n = mk3 n (rows2 Q) (cols2 Q) (\<lambda>b i j. elem2 Q i j)"

text \<open>
  \<open>nn.init.xavier_uniform_\<close>: the bound of the uniform draw is computed from
  \<open>2.0 / float(fan_in + fan_out)\<close>, which raises when both fans are 0. The values
  drawn are an input of the model.
\<close>

definition xavier_uniform :: "nat \<Rightarrow> nat \<Rightarrow> 'a \<Rightarrow> py_error + 'a" where
  "xavier_uniform fan_in fan_out drawn =
     (if fan_in + fan_out = 0 then Inl ZeroDivisionError else Inr drawn)"

section \<open>Multi-head reshape utility\<close>

text \<open>
  Modelled from the spec: the module \<open>attention_modules/multihead_attention.py\<close>
  (\<open>transpose_qkv\<close>, \<open>transpose_output\<close>) is not among the sources. Split: given an
  array [batch, n, d] and head count H, produce [batch * H, n, d / H] by
  partitioning the channel axis into H contiguous groups and stacking them along
  the batch axis (head \<open>k mod H\<close> of document \<open>k div H\<close> at position \<open>k\<close>).
  Merge: the exact inverse, restoring [batch, n, d] from [batch * H, n, d / H].
\<close>

definition split :: "tensor3 \<Rightarrow> nat \<Rightarrow> tensor3" where
  "split x h =
     mk3 (size0 x * h) (size1 x) (size2 x div h)
       (\<lambda>k i c. elem3 x (k div h) i ((k mod h) * (size2 x div h) + c))"

definition merge :: "tensor3 \<Rightarrow> nat \<Rightarrow> tensor3" where
  "merge y h =
     mk3 (size0 y div h) (size1 y) (size2 y * h)
       (\<lambda>b i c. elem3 y (b * h + c div size2 y) i (c mod size2 y))"

text \<open>
  Modelled from the spec: the two helpers as the attention modules call them, with
  the head count an optional configuration value. The spec defines split and merge
  only for a head count that divides the axis it partitions; a missing head count
  or one that does not divide it cannot be reshaped and is an error here.
\<close>

definition transpose_qkv :: "tensor3 \<Rightarrow> nat option \<Rightarrow> py_error + tensor3" where
  "transpose_qkv X num_heads =
     (case num_heads of
        None \<Rightarrow> Inl TypeError
      | Some h \<Rightarrow> if 0 < h \<and> h dvd size2 X then Inr (split X h) else Inl RuntimeError)"

definition transpose_output :: "tensor3 \<Rightarrow> nat option \<Rightarrow> py_error + tensor3" where
  "transpose_output X num_heads =
     (case num_heads of
        None \<Rightarrow> Inl TypeError
      | Some h \<Rightarrow> if 0 < h \<and> h dvd size0 X then Inr (merge X h) else Inl RuntimeError)"

section \<open>TargetAttention\<close>

text \<open>
  The instance attributes of \<open>TargetAttention\<close>. \<open>conv_K\<close> and \<open>conv_V\<close> are the
  attributes \<open>K\<close> and \<open>V\<close>, \<open>self_Q\<close> is the attribute \<open>Q\<close>. The attributes \<open>W_k\<close>,
  \<open>W_v\<close>, \<open>W_q\<close> exist only on an instance built with the multihead flag.
\<close>

record target_attention =
  ta_num_labels :: nat
  ta_embedding_dim :: nat
  ta_latent_doc_dim :: nat
  ta_scale :: bool
  ta_multihead :: bool
  ta_num_heads :: "nat option"
  K_alignment :: "tensor3 option"
  Q_alignment :: "any_tensor option"
  conv_K :: conv1d
  conv_V :: conv1d
  Q_mat :: linear
  self_Q :: tensor2
  W_k :: "linear option"
  W_v :: "linear option"
  W_q :: "linear option"

text \<open>The values the random initialisers draw while a module is built.\<close>

record draws =
  draw_K :: "nat \<Rightarrow> nat \<Rightarrow> nat \<Rightarrow> real"
  draw_V :: "nat \<Rightarrow> nat \<Rightarrow> nat \<Rightarrow> real"
  draw_Q_mat :: "nat \<Rightarrow> nat \<Rightarrow> real"
  draw_Q_mat_bias :: "nat \<Rightarrow> real"
  draw_W_k :: "nat \<Rightarrow> nat \<Rightarrow> real"
  draw_W_v :: "nat \<Rightarrow> nat \<Rightarrow> real"
  draw_W_q :: "nat \<Rightarrow> nat \<Rightarrow> real"
  draw_MH_output :: "nat \<Rightarrow> nat \<Rightarrow> real"
  draw_MH_output_bias :: "nat \<Rightarrow> real"

text \<open>A \<open>nn.Linear\<close> whose weight is re-drawn by xavier_uniform_ and whose bias is filled with 0.01.\<close>

definition xavier_linear :: "nat \<Rightarrow> nat \<Rightarrow> (nat \<Rightarrow> nat \<Rightarrow> real) \<Rightarrow> py_error + linear" where
  "xavier_linear in_features out_features drawn =
     and_then (xavier_uniform in_features out_features (mk2 out_features in_features drawn))
       (\<lambda>w. Inr \<lparr>lin_weight = w, lin_bias = mk1 out_features (\<lambda>_. 1 / 100)\<rparr>)"

text \<open>A kernel-size-1 \<open>nn.Conv1d\<close>, weight re-drawn by xavier_uniform_, bias filled with 0.01.\<close>

definition xavier_conv1d :: "nat \<Rightarrow> nat \<Rightarrow> (nat \<Rightarrow> nat \<Rightarrow> nat \<Rightarrow> real) \<Rightarrow> py_error + conv1d" where
  "xavier_conv1d in_channels out_channels drawn =
     and_then (xavier_uniform in_channels out_channels (mk3 out_channels in_channels 1 drawn))
       (\<lambda>w. Inr \<lparr>conv_weight = w, conv_bias = mk1 out_channels (\<lambda>_. 1 / 100)\<rparr>)"

text \<open>
  \<open>TargetAttention.__init__\<close>. The attribute \<open>Q\<close> is \<open>self.Q_mat.weight.clone()\<close>: a copy,
  taken once, of the weight of \<open>Q_mat\<close>.
\<close>

definition TargetAttention_init ::
  "nat \<Rightarrow> nat \<Rightarrow> nat \<Rightarrow> bool \<Rightarrow> bool \<Rightarrow> nat option \<Rightarrow> draws \<Rightarrow> py_error + target_attention" where
  "TargetAttention_init num_labels embedding_dim latent_doc_dim scale multihead num_heads rnd =
     and_then (xavier_conv1d latent_doc_dim latent_doc_dim (draw_K rnd)) (\<lambda>K.
     and_then (xavier_conv1d latent_doc_dim latent_doc_dim (draw_V rnd)) (\<lambda>V.
     and_then (xavier_uniform latent_doc_dim num_labels
                 (mk2 num_labels latent_doc_dim (draw_Q_mat rnd))) (\<lambda>Qw.
     let self = \<lparr>ta_num_labels = num_labels,
                  ta_embedding_dim = embedding_dim,
                  ta_latent_doc_dim = latent_doc_dim,
                  ta_scale = scale,
                  ta_multihead = multihead,
                  ta_num_heads = num_heads,
                  K_alignment = None,
                  Q_alignment = None,
                  conv_K = K,
                  conv_V = V,
                  Q_mat = \<lparr>lin_weight = Qw, lin_bias = mk1 num_labels (draw_Q_mat_bias rnd)\<rparr>,
                  self_Q = Qw,
                  W_k = None, W_v = None, W_q = None\<rparr>
     in if multihead then
          and_then (xavier_linear latent_doc_dim latent_doc_dim (draw_W_k rnd)) (\<lambda>Wk.
          and_then (xavier_linear latent_doc_dim latent_doc_dim (draw_W_v rnd)) (\<lambda>Wv.
          and_then (xavier_linear latent_doc_dim latent_doc_dim (draw_W_q rnd)) (\<lambda>Wq.
          Inr (self\<lparr>W_k := Some Wk, W_v := Some Wv, W_q := Some Wq\<rparr>))))
        else Inr self)))"

text \<open>
  The two \<open>if self._scale\<close> blocks of \<open>TargetAttention.forward\<close>: the energy scores
  of the single-head branch (\<open>Q.matmul\<close>) and of the multi-head branch (\<open>torch.bmm\<close>).
  \<open>np.sqrt\<close> of the embedding dimension is the divisor.
\<close>

definition energy :: "bool \<Rightarrow> nat \<Rightarrow> tensor2 \<Rightarrow> tensor3 \<Rightarrow> py_error + tensor3" where
  "energy scale embedding_dim Q K =
     (if scale then
        and_then (matmul_2_3 Q (permute_0_2_1 K))
          (\<lambda>QK. Inr (div_scalar QK (sqrt (real embedding_dim))))
      else matmul_2_3 Q (permute_0_2_1 K))"

definition energy_multihead :: "bool \<Rightarrow> nat \<Rightarrow> tensor3 \<Rightarrow> tensor3 \<Rightarrow> py_error + tensor3" where
  "energy_multihead scale embedding_dim Q K =
     (if scale then
        and_then (bmm Q (permute_0_2_1 K))
          (\<lambda>QK. Inr (div_scalar QK (sqrt (real embedding_dim))))
      else bmm Q (permute_0_2_1 K))"

text \<open>
  \<open>TargetAttention.forward\<close>. It returns the pair (C, A) and leaves the instance
  with \<open>K_alignment\<close> and \<open>Q_alignment\<close> assigned; a raise leaves the instance as it was.
\<close>

definition TargetAttention_forward ::
  "target_attention \<Rightarrow> tensor3 \<Rightarrow> py_error + ((tensor3 \<times> tensor3) \<times> target_attention)" where
  "TargetAttention_forward self H =
     and_then (Conv1d_forward (conv_K self) H) (\<lambda>KH.
     let K = permute_0_2_1 (F_elu KH) in
     and_then (Conv1d_forward (conv_V self) H) (\<lambda>VH.
     let V = permute_0_2_1 (F_elu VH);
         Q = self_Q self
     in if ta_multihead self then
          let Q3 = unsqueeze_repeat Q (size0 K) in
          and_then (getattr (W_k self)) (\<lambda>Wk.
          and_then (Linear_forward Wk K) (\<lambda>WK.
          and_then (transpose_qkv WK (ta_num_heads self)) (\<lambda>K'.
          and_then (getattr (W_v self)) (\<lambda>Wv.
          and_then (Linear_forward Wv V) (\<lambda>WV.
          and_then (transpose_qkv WV (ta_num_heads self)) (\<lambda>V'.
          and_then (getattr (W_q self)) (\<lambda>Wq.
          and_then (Linear_forward Wq Q3) (\<lambda>WQ.
          and_then (transpose_qkv WQ (ta_num_heads self)) (\<lambda>Q'.
          and_then (energy_multihead (ta_scale self) (ta_embedding_dim self) Q' K') (\<lambda>E.
          let A = softmax_last E in
          and_then (bmm A V') (\<lambda>C.
          Inr ((C, A),
               self\<lparr>K_alignment := Some K', Q_alignment := Some (Tensor3 Q')\<rparr>))))))))))))
        else
          and_then (energy (ta_scale self) (ta_embedding_dim self) Q K) (\<lambda>E.
          let A = softmax_last E in
          and_then (bmm A V) (\<lambda>C.
          Inr ((C, A),
               self\<lparr>K_alignment := Some K, Q_alignment := Some (Tensor2 Q)\<rparr>)))))"

text \<open>
  The shapes \<open>__init__\<close> gives the layers of an instance (their values change with
  training, their shapes do not).
\<close>

definition conv_shape :: "conv1d \<Rightarrow> nat \<Rightarrow> nat \<Rightarrow> nat \<Rightarrow> bool" where
  "conv_shape m out_channels in_channels kernel_size =
     (size0 (conv_weight m) = out_channels \<and> size1 (conv_weight m) = in_channels
      \<and> size2 (conv_weight m) = kernel_size)"

definition linear_shape :: "linear option \<Rightarrow> nat \<Rightarrow> nat \<Rightarrow> bool" where
  "linear_shape m out_features in_features =
     (case m of
        None \<Rightarrow> False
      | Some l \<Rightarrow> rows2 (lin_weight l) = out_features \<and> cols2 (lin_weight l) = in_features)"

definition constructed :: "target_attention \<Rightarrow> bool" where
  "constructed self =
     (conv_shape (conv_K self) (ta_latent_doc_dim self) (ta_latent_doc_dim self) 1
      \<and> conv_shape (conv_V self) (ta_latent_doc_dim self) (ta_latent_doc_dim self) 1
      \<and> rows2 (self_Q self) = ta_num_labels self
      \<and> cols2 (self_Q self) = ta_latent_doc_dim self
      \<and> (if ta_multihead self then
            linear_shape (W_k self) (ta_latent_doc_dim self) (ta_latent_doc_dim self)
            \<and> linear_shape (W_v self) (ta_latent_doc_dim self) (ta_latent_doc_dim self)
            \<and> linear_shape (W_q self) (ta_latent_doc_dim self) (ta_latent_doc_dim self)
          else True))"

section \<open>The dispatcher: Attention\<close>

text \<open>
  The attention layer a dispatcher holds is a \<open>TargetAttention\<close> or an instance of a
  class whose module is not among the sources (\<open>LabelAttention\<close>, \<open>AlternateAttention\<close>,
  the hierarchical, context and masked classes). Of such an instance only its call
  is known: what it does with \<open>H\<close> and with the keyword argument \<open>Q\<close>, if one is passed.
\<close>

datatype layer =
    TargetLayer target_attention
  | AbsentLayer "tensor3 \<Rightarrow> tensor2 option \<Rightarrow> py_error + (tensor3 \<times> tensor3)"

record attention_args =
  a_num_labels :: nat
  a_embedding_dim :: nat
  a_latent_doc_dim :: nat
  a_att_module :: string
  a_scale :: bool
  a_multihead :: bool
  a_num_heads :: "nat option"
  a_num_cats :: "nat option"
  a_label_embedding_matrix :: "tensor2 option"
  a_cat_embedding_matrix :: "tensor2 option"
  a_code2cat_map :: "nat list option"
  a_gamma :: "real option"

text \<open>
  The instance attributes of \<open>Attention\<close>: the constructor's arguments as it stores
  them, and \<open>MH_output\<close>, \<open>attention_layer\<close> and \<open>Q\<close> (here \<open>dispatcher_Q\<close>), each of
  which exists only once it has been assigned.
\<close>

record attention = attention_args +
  MH_output :: "linear option"
  attention_layer :: "layer option"
  dispatcher_Q :: "tensor2 option"

text \<open>A tensor has no attribute \<open>weight\<close>: reading it raises.\<close>

definition Tensor_weight :: "tensor2 \<Rightarrow> py_error + tensor2" where
  "Tensor_weight t = Inl AttributeError"

text \<open>
  \<open>Attention.__init__\<close>. \<open>absent_class\<close> stands for the constructors of the classes
  whose modules are not among the sources, by class name.
\<close>

definition Attention_init ::
  "attention_args \<Rightarrow> draws \<Rightarrow> (string \<Rightarrow> attention_args \<Rightarrow> py_error + layer)
     \<Rightarrow> py_error + attention" where
  "Attention_init args rnd absent_class =
     (let self0 = \<lparr>a_num_labels = a_num_labels args,
                   a_embedding_dim = a_embedding_dim args,
                   a_latent_doc_dim = a_latent_doc_dim args,
                   a_att_module = a_att_module args,
                   a_scale = a_scale args,
                   a_multihead = a_multihead args,
                   a_num_heads = a_num_heads args,
                   a_num_cats = a_num_cats args,
                   a_label_embedding_matrix = a_label_embedding_matrix args,
                   a_cat_embedding_matrix = a_cat_embedding_matrix args,
                   a_code2cat_map = a_code2cat_map args,
                   a_gamma = a_gamma args,
                   MH_output = None, attention_layer = None, dispatcher_Q = None\<rparr>;
          self = (if a_multihead self0 then
                    self0\<lparr>MH_output :=
                      Some \<lparr>lin_weight = mk2 (a_latent_doc_dim self0) (a_latent_doc_dim self0)
                                            (draw_MH_output rnd),
                            lin_bias = mk1 (a_latent_doc_dim self0) (draw_MH_output_bias rnd)\<rparr>\<rparr>
                  else self0);
          other = (\<lambda>class_name.
                    and_then (absent_class class_name args)
                      (\<lambda>l. Inr (self\<lparr>attention_layer := Some l\<rparr>)))
      in
      if a_att_module self = ''target'' then
        and_then (TargetAttention_init (a_num_labels self) (a_embedding_dim self)
                    (a_latent_doc_dim self) (a_scale self) (a_multihead self)
                    (a_num_heads self) rnd) (\<lambda>l.
        and_then (Tensor_weight (self_Q l)) (\<lambda>w.
        Inr (self\<lparr>attention_layer := Some (TargetLayer l), dispatcher_Q := Some w\<rparr>)))
      else if a_att_module self = ''label'' then other ''LabelAttention''
      else if a_att_module self = ''alternate'' then other ''AlternateAttention''
      else if a_att_module self = ''hierarchical_target'' then other ''HierarchicalTargetAttention''
      else if a_att_module self = ''hierarchical_context'' then other ''HierarchicalContextAttention''
      else if a_att_module self = ''hierarchical_double_attention''
        then other ''HierarchicalDoubleAttention''
      else if a_att_module self = ''hierarchical_label'' then other ''HierarchicalLabelAttention''
      else if a_att_module self = ''context'' then other ''ContextAttention''
      else if a_att_module self = ''context_diff'' then other ''ContextAttentionDiffInput''
      else if a_att_module self = ''max_masked'' then other ''MaxMaskedAttention''
      else if a_att_module self = ''rank_masked'' then other ''RankedMaskedAttention''
      else Inr self)"

text \<open>The variant names the constructor's chain of comparisons knows.\<close>

definition recognized :: "string list" where
  "recognized =
     [''target'', ''label'', ''alternate'', ''hierarchical_target'', ''hierarchical_context'',
      ''hierarchical_double_attention'', ''hierarchical_label'', ''context'', ''context_diff'',
      ''max_masked'', ''rank_masked'']"

text \<open>
  Calling the attention layer. \<open>TargetAttention.forward\<close> takes \<open>H\<close> only: a call that
  passes the keyword argument \<open>Q\<close> raises TypeError before the body runs.
\<close>

definition call_layer ::
  "layer \<Rightarrow> tensor3 \<Rightarrow> tensor2 option \<Rightarrow> py_error + ((tensor3 \<times> tensor3) \<times> layer)" where
  "call_layer l H Q_kw =
     (case l of
        TargetLayer t \<Rightarrow>
          (case Q_kw of
             Some q \<Rightarrow> Inl TypeError
           | None \<Rightarrow> and_then (TargetAttention_forward t H) (\<lambda>(CA, t'). Inr (CA, TargetLayer t')))
      | AbsentLayer f \<Rightarrow> and_then (f H Q_kw) (\<lambda>CA. Inr (CA, l)))"

text \<open>
  \<open>Attention.forward\<close>. The local variable \<open>Q\<close> is bound only when the variant is
  \<open>target\<close>; in the call \<open>self.attention_layer(H=H, Q=Q)\<close> the attribute is read
  first, then the arguments.
\<close>

definition Attention_forward ::
  "attention \<Rightarrow> tensor3 \<Rightarrow> py_error + ((tensor3 \<times> tensor3) \<times> attention)" where
  "Attention_forward self H =
     and_then (if a_att_module self = ''target''
               then and_then (getattr (dispatcher_Q self)) (\<lambda>q. Inr (Some q))
               else Inr None) (\<lambda>Q.
     if a_multihead self then
       and_then (getattr (attention_layer self)) (\<lambda>l.
       and_then (call_layer l H None) (\<lambda>((C, A), l').
       and_then (transpose_output C (a_num_heads self)) (\<lambda>C'.
       and_then (transpose_output A (a_num_heads self)) (\<lambda>A'.
       and_then (getattr (MH_output self)) (\<lambda>MH.
       and_then (Linear_forward MH C') (\<lambda>C''.
       Inr ((C'', A'), self\<lparr>attention_layer := Some l'\<rparr>)))))))
     else
       and_then (getattr (attention_layer self)) (\<lambda>l.
       and_then (case Q of None \<Rightarrow> Inl UnboundLocalError | Some q \<Rightarrow> Inr q) (\<lambda>q.
       and_then (call_layer l H (Some q)) (\<lambda>(CA, l').
       Inr (CA, self\<lparr>attention_layer := Some l'\<rparr>)))))"

text \<open>
  The check of \<open>main\<close> on the command line's head count, made before any model is
  built: \<open>if args.multihead and (args.num_heads is None): raise TypeError(...)\<close>.
\<close>

definition main_num_heads_check :: "bool \<Rightarrow> nat option \<Rightarrow> py_error + unit" where
  "main_num_heads_check multihead num_heads =
     (if multihead \<and> num_heads = None then Inl TypeError else Inr ())"

section \<open>The base attention algorithm as the specification words it\<close>

text \<open>
  The key and value arrays: a linear map applied identically at every sequence
  position of \<open>H\<close> (the feature vector of position \<open>l\<close> of document \<open>b\<close> is mapped to
  the output channels \<open>oc\<close>), followed by ELU, with the sequence axis before the
  channel axis.
\<close>

definition positional_projection :: "conv1d \<Rightarrow> tensor3 \<Rightarrow> nat \<Rightarrow> nat \<Rightarrow> nat \<Rightarrow> real" where
  "positional_projection m H b l oc =
     (\<Sum>c<size1 H. elem3 (conv_weight m) oc c 0 * elem3 H b c l) + elem1 (conv_bias m) oc"

definition key_value :: "conv1d \<Rightarrow> tensor3 \<Rightarrow> tensor3" where
  "key_value m H =
     mk3 (size0 H) (size2 H) (size0 (conv_weight m))
       (\<lambda>b l oc. elu (positional_projection m H b l oc))"

text \<open>Step 1, the batched product of \<open>Q\<close> with the transpose of \<open>K\<close>; step 4, of \<open>A\<close> with \<open>V\<close>.\<close>

definition product_Q_Kt :: "tensor2 \<Rightarrow> tensor3 \<Rightarrow> tensor3" where
  "product_Q_Kt Q K =
     mk3 (size0 K) (rows2 Q) (size1 K) (\<lambda>b i l. \<Sum>c<cols2 Q. elem2 Q i c * elem3 K b l c)"

definition product_A_V :: "tensor3 \<Rightarrow> tensor3 \<Rightarrow> tensor3" where
  "product_A_V A V =
     mk3 (size0 A) (size1 A) (size2 V) (\<lambda>b i c. \<Sum>l<size1 V. elem3 A b i l * elem3 V b l c)"

text \<open>Steps 1 to 4 of the base attention algorithm, the scaling step 2 included.\<close>

definition base_attention ::
  "bool \<Rightarrow> nat \<Rightarrow> tensor2 \<Rightarrow> tensor3 \<Rightarrow> tensor3 \<Rightarrow> tensor3 \<times> tensor3" where
  "base_attention scale_flag embedding_dim Q K V =
     (let E = product_Q_Kt Q K;
          E' = (if scale_flag then div_scalar E (sqrt (real embedding_dim)) else E);
          A = softmax_last E';
          C = product_A_V A V
      in (C, A))"

text \<open>The same steps with the energy left as the plain product, whatever the scale flag.\<close>

definition unscaled_attention :: "tensor2 \<Rightarrow> tensor3 \<Rightarrow> tensor3 \<Rightarrow> tensor3 \<times> tensor3" where
  "unscaled_attention Q K V =
     (let E = product_Q_Kt Q K;
          A = softmax_last E;
          C = product_A_V A V
      in (C, A))"

text \<open>
  A row of attention weights is a probability distribution over the sequence
  positions: no entry is negative and the entries sum to 1 within 1e-5.
\<close>

definition row_distribution :: "tensor3 \<Rightarrow> nat \<Rightarrow> nat \<Rightarrow> bool" where
  "row_distribution A b i =
     ((\<forall>j<size2 A. 0 \<le> elem3 A b i j)
      \<and> \<bar>(\<Sum>j<size2 A. elem3 A b i j) - 1\<bar> \<le> 1 / 100000)"

text \<open>
  A dispatcher of variant \<open>target\<close> does not hold a layer of one of the absent
  classes: the constructor assigns it a \<open>TargetAttention\<close> or nothing.
\<close>

definition layer_of_variant :: "attention \<Rightarrow> bool" where
  "layer_of_variant self =
     (case attention_layer self of
        Some (AbsentLayer f) \<Rightarrow> a_att_module self \<noteq> ''target''
      | _ \<Rightarrow> True)"

text \<open>
  \<open>E'\<close> is \<open>E\<close> divided elementwise by \<open>r\<close>: the same shape, and every entry of \<open>E'\<close>
  is the entry of \<open>E\<close> at the same place divided by \<open>r\<close>.
\<close>

definition elementwise_quotient :: "tensor3 \<Rightarrow> tensor3 \<Rightarrow> real \<Rightarrow> bool" where
  "elementwise_quotient E' E r =
     (size0 E' = size0 E \<and> size1 E' = size1 E \<and> size2 E' = size2 E
      \<and> (\<forall>b<size0 E. \<forall>i<size1 E. \<forall>j<size2 E. elem3 E' b i j = elem3 E b i j / r))"

text \<open>
  The outcome with scaling against the outcome without: both raise the same error,
  or both return and the scaled energy is the elementwise quotient by \<open>r\<close>.
\<close>

definition scale_related :: "real \<Rightarrow> py_error + tensor3 \<Rightarrow> py_error + tensor3 \<Rightarrow> bool" where
  "scale_related r unscaled scaled =
     (case unscaled of
        Inl e \<Rightarrow> scaled = Inl e
      | Inr E \<Rightarrow> (case scaled of Inl e \<Rightarrow> False | Inr E' \<Rightarrow> elementwise_quotient E' E r))"

section \<open>Concrete instances\<close>

definition example_conv :: conv1d where
  "example_conv = \<lparr>conv_weight = mk3 1 1 1 (\<lambda>oc c k. 1), conv_bias = mk1 1 (\<lambda>oc. 0)\<rparr>"

definition example_Q :: tensor2 where
  "example_Q = mk2 1 1 (\<lambda>i c. 1)"

text \<open>One label, one channel, scaling on with embedding dimension 4, single head.\<close>

definition example_layer :: target_attention where
  "example_layer =
     \<lparr>ta_num_labels = 1, ta_embedding_dim = 4, ta_latent_doc_dim = 1,
      ta_scale = True, ta_multihead = False, ta_num_heads = None,
      K_alignment = None, Q_alignment = None,
      conv_K = example_conv, conv_V = example_conv,
      Q_mat = \<lparr>lin_weight = example_Q, lin_bias = mk1 1 (\<lambda>i. 0)\<rparr>,
      self_Q = example_Q,
      W_k = None, W_v = None, W_q = None\<rparr>"

text \<open>One document of two positions with the single features 0 and 1.\<close>

definition example_H :: tensor3 where
  "example_H = mk3 1 1 2 (\<lambda>b c l. real l)"

text \<open>The same document with two channels, which the example layer does not accept.\<close>

definition example_H_wide :: tensor3 where
  "example_H_wide = mk3 1 2 2 (\<lambda>b c l. real l)"

definition example_draws :: draws where
  "example_draws =
     \<lparr>draw_K = (\<lambda>oc c k. 1), draw_V = (\<lambda>oc c k. 1), draw_Q_mat = (\<lambda>i c. 1),
      draw_Q_mat_bias = (\<lambda>i. 0), draw_W_k = (\<lambda>i c. 1), draw_W_v = (\<lambda>i c. 1),
      draw_W_q = (\<lambda>i c. 1), draw_MH_output = (\<lambda>i c. 1), draw_MH_output_bias = (\<lambda>i. 0)\<rparr>"

text \<open>The weight of \<open>Q_mat\<close> after an optimizer step moved it from 1 to 2.\<close>

definition example_trained_Q_mat :: linear where
  "example_trained_Q_mat = \<lparr>lin_weight = mk2 1 1 (\<lambda>i c. 2), lin_bias = mk1 1 (\<lambda>i. 0)\<rparr>"

text \<open>No class of the absent modules can be built.\<close>

definition no_absent_class :: "string \<Rightarrow> attention_args \<Rightarrow> py_error + layer" where
  "no_absent_class class_name args = Inl AttributeError"

text \<open>
  The scenario of the specification: 4 labels, embedding dimension 8, latent
  dimension 8, variant \<open>target\<close>, no scaling, single head.
\<close>

definition scenario_args :: attention_args where
  "scenario_args =
     \<lparr>a_num_labels = 4, a_embedding_dim = 8, a_latent_doc_dim = 8,
      a_att_module = ''target'', a_scale = False, a_multihead = False,
      a_num_heads = None, a_num_cats = None, a_label_embedding_matrix = None,
      a_cat_embedding_matrix = None, a_code2cat_map = None, a_gamma = None\<rparr>"

text \<open>An unknown variant name, multi-head with 3 heads on a latent dimension of 8.\<close>

definition unknown_variant_args :: attention_args where
  "unknown_variant_args =
     \<lparr>a_num_labels = 4, a_embedding_dim = 8, a_latent_doc_dim = 8,
      a_att_module = ''unknown'', a_scale = False, a_multihead = True,
      a_num_heads = Some 3, a_num_cats = None, a_label_embedding_matrix = None,
      a_cat_embedding_matrix = None, a_code2cat_map = None, a_gamma = None\<rparr>"

text \<open>A single-head dispatcher of variant \<open>target\<close> holding the example layer and its query.\<close>

definition example_dispatcher :: attention where
  "example_dispatcher =
     \<lparr>a_num_labels = 1, a_embedding_dim = 4, a_latent_doc_dim = 1,
      a_att_module = ''target'', a_scale = True, a_multihead = False,
      a_num_heads = None, a_num_cats = None, a_label_embedding_matrix = None,
      a_cat_embedding_matrix = None, a_code2cat_map = None, a_gamma = None,
      MH_output = None, attention_layer = Some (TargetLayer example_layer),
      dispatcher_Q = Some example_Q\<rparr>"

text \<open>
  A single-head dispatcher of variant \<open>label\<close>, as the constructor returns it when
  the absent class yields a layer that would answer every call with (H, H).
\<close>

definition example_absent_layer :: layer where
  "example_absent_layer = AbsentLayer (\<lambda>H Q. Inr (H, H))"

definition label_args :: attention_args where
  "label_args =
     \<lparr>a_num_labels = 1, a_embedding_dim = 4, a_latent_doc_dim = 1,
      a_att_module = ''label'', a_scale = False, a_multihead = False,
      a_num_heads = None, a_num_cats = None, a_label_embedding_matrix = None,
      a_cat_embedding_matrix = None, a_code2cat_map = None, a_gamma = None\<rparr>"

definition example_label_dispatcher :: attention where
  "example_label_dispatcher =
     \<lparr>a_num_labels = 1, a_embedding_dim = 4, a_latent_doc_dim = 1,
      a_att_module = ''label'', a_scale = False, a_multihead = False,
      a_num_heads = None, a_num_cats = None, a_label_embedding_matrix = None,
      a_cat_embedding_matrix = None, a_code2cat_map = None, a_gamma = None,
      MH_output = None, attention_layer = Some example_absent_layer,
      dispatcher_Q = None\<rparr>"

section \<open>Basic facts\<close>

lemma and_then_simps [simp]:
  "and_then (Inl e) f = Inl e"
  "and_then (Inr x) f = f x"
  by (simp_all add: and_then_def)

lemma and_then_eq_Inr:
  "and_then m f = Inr y \<longleftrightarrow> (\<exists>x. m = Inr x \<and> f x = Inr y)"
  by (cases m) simp_all

lemma getattr_simps [simp]:
  "getattr None = Inl AttributeError"
  "getattr (Some x) = Inr x"
  by (simp_all add: getattr_def)

lemma mk3_sizes [simp]:
  "size0 (mk3 a b c f) = a" "size1 (mk3 a b c f) = b" "size2 (mk3 a b c f) = c"
  by (simp_all add: mk3_def)

lemma mk3_elem_in [simp]:
  "i < a \<Longrightarrow> j < b \<Longrightarrow> k < c \<Longrightarrow> elem3 (mk3 a b c f) i j k = f i j k"
  by (simp add: mk3_def)

lemma mk3_eqI:
  assumes "\<And>i j k. i < a \<Longrightarrow> j < b \<Longrightarrow> k < c \<Longrightarrow> f i j k = g i j k"
  shows "mk3 a b c f = mk3 a b c g"
  using assms by (auto simp: mk3_def fun_eq_iff)

lemma mk3_is_tensor3 [simp]: "is_tensor3 (mk3 a b c f)"
  by (auto simp: is_tensor3_def mk3_def fun_eq_iff)

lemma mk2_fields [simp]:
  "rows2 (mk2 a b f) = a" "cols2 (mk2 a b f) = b"
  "i < a \<Longrightarrow> j < b \<Longrightarrow> elem2 (mk2 a b f) i j = f i j"
  by (simp_all add: mk2_def)

lemma mk1_fields [simp]:
  "length1 (mk1 n f) = n" "i < n \<Longrightarrow> elem1 (mk1 n f) i = f i"
  by (simp_all add: mk1_def)

lemma op_sizes [simp]:
  "size0 (F_elu X) = size0 X" "size1 (F_elu X) = size1 X" "size2 (F_elu X) = size2 X"
  "size0 (permute_0_2_1 X) = size0 X" "size1 (permute_0_2_1 X) = size2 X"
  "size2 (permute_0_2_1 X) = size1 X"
  "size0 (div_scalar X r) = size0 X" "size1 (div_scalar X r) = size1 X"
  "size2 (div_scalar X r) = size2 X"
  "size0 (softmax_last X) = size0 X" "size1 (softmax_last X) = size1 X"
  "size2 (softmax_last X) = size2 X"
  "size0 (split X h) = size0 X * h" "size1 (split X h) = size1 X"
  "size2 (split X h) = size2 X div h"
  "size0 (merge X h) = size0 X div h" "size1 (merge X h) = size1 X"
  "size2 (merge X h) = size2 X * h"
  by (simp_all add: F_elu_def permute_0_2_1_def div_scalar_def softmax_last_def
      split_def merge_def)

section \<open>Head split and merge\<close>

lemma head_index:
  assumes "0 < (h::nat)" "c < dk * h"
  shows "c div dk < h" "0 < dk"
proof -
  show dk: "0 < dk"
  proof (rule ccontr)
    assume "\<not> 0 < dk"
    then have "dk = 0" by simp
    with assms show False by simp
  qed
  have "c < h * dk" using assms by (simp add: mult.commute)
  then show "c div dk < h" using dk
    by (simp add: div_less_iff_less_mult)
qed

lemma merge_split_index:
  assumes h: "0 < (h::nat)" and c: "c < dk * h" and b: "b < (n::nat)"
  shows "b * h + c div dk < n * h"
    and "(b * h + c div dk) div h = b"
    and "((b * h + c div dk) mod h) * dk + c mod dk = c"
proof -
  have q: "c div dk < h" and dk: "0 < dk" using head_index[OF h c] by auto
  have "b * h + c div dk < b * h + h" using q by linarith
  also have "\<dots> = Suc b * h" by simp
  also have "\<dots> \<le> n * h" using b by (intro mult_le_mono1) simp
  finally show "b * h + c div dk < n * h" .
  show "(b * h + c div dk) div h = b" using q h by simp
  have "(b * h + c div dk) mod h = c div dk" using q by simp
  then show "((b * h + c div dk) mod h) * dk + c mod dk = c" by (simp add: mult.commute)
qed

lemma merge_split_mk3:
  assumes "0 < h" "h dvd size2 x"
  shows "merge (split x h) h = mk3 (size0 x) (size1 x) (size2 x) (elem3 x)"
proof -
  have d: "size2 x div h * h = size2 x" using assms(2) by simp
  have b: "size0 x * h div h = size0 x" using assms(1) by simp
  show ?thesis
    unfolding merge_def using d b
    apply (simp add: split_def)
    apply (rule mk3_eqI)
    subgoal for i j k
      using merge_split_index[of h k "size2 x div h" i "size0 x"] assms(1)
        head_index[of h k "size2 x div h"]
      by simp
    done
qed

text \<open>
  Claim C6. For every array \<open>x\<close> of shape [batch, n, d] and every head count \<open>h\<close> that
  divides \<open>d\<close>, merging the head-split of \<open>x\<close> restores \<open>x\<close> exactly:
  \<open>merge (split x h) h = x\<close>.
\<close>

theorem merge_split:
  assumes "is_tensor3 x" "0 < h" "h dvd size2 x"
  shows "merge (split x h) h = x"
  using merge_split_mk3[OF assms(2,3)] assms(1) by (simp add: is_tensor3_def)

theorem merge_split_witness:
  "is_tensor3 (mk3 2 3 4 (\<lambda>b i c. real (b + i * c))) \<and> (0::nat) < 2
   \<and> (2::nat) dvd size2 (mk3 2 3 4 (\<lambda>b i c. real (b + i * c)))
   \<and> merge (split (mk3 2 3 4 (\<lambda>b i c. real (b + i * c))) 2) 2
       = mk3 2 3 4 (\<lambda>b i c. real (b + i * c))"
  using merge_split[of "mk3 2 3 4 (\<lambda>b i c. real (b + i * c))" 2] by simp

section \<open>The single-head forward pass and the specification's steps\<close>

lemma key_value_sizes [simp]:
  "size0 (key_value m H) = size0 H" "size1 (key_value m H) = size2 H"
  "size2 (key_value m H) = size0 (conv_weight m)"
  by (simp_all add: key_value_def)

lemma product_sizes [simp]:
  "size0 (product_Q_Kt Q K) = size0 K" "size1 (product_Q_Kt Q K) = rows2 Q"
  "size2 (product_Q_Kt Q K) = size1 K"
  "size0 (product_A_V A V) = size0 A" "size1 (product_A_V A V) = size1 A"
  "size2 (product_A_V A V) = size2 V"
  by (simp_all add: product_Q_Kt_def product_A_V_def)

lemma base_attention_sizes [simp]:
  "size0 (snd (base_attention sc emb Q K V)) = size0 K"
  "size1 (snd (base_attention sc emb Q K V)) = rows2 Q"
  "size2 (snd (base_attention sc emb Q K V)) = size1 K"
  "size0 (fst (base_attention sc emb Q K V)) = size0 K"
  "size1 (fst (base_attention sc emb Q K V)) = rows2 Q"
  "size2 (fst (base_attention sc emb Q K V)) = size2 V"
  by (simp_all add: base_attention_def Let_def)

text \<open>A convolution of kernel size 1 is the same linear map at every position.\<close>

lemma conv_pointwise:
  assumes "conv_shape m oc ic 1" "size1 X = ic" "0 < size2 X"
  shows "Conv1d_forward m X =
           Inr (mk3 (size0 X) oc (size2 X) (\<lambda>b c l. positional_projection m X b l c))"
  using assms
  by (simp add: Conv1d_forward_def conv_shape_def positional_projection_def Let_def)

lemma permute_elu_conv:
  assumes "conv_shape m oc ic 1"
  shows "permute_0_2_1 (F_elu (mk3 (size0 X) oc (size2 X) (\<lambda>b c l. positional_projection m X b l c)))
           = key_value m X"
  using assms unfolding permute_0_2_1_def F_elu_def key_value_def conv_shape_def
  by (auto intro!: mk3_eqI)

lemma matmul_permute:
  assumes "cols2 Q = size2 K"
  shows "matmul_2_3 Q (permute_0_2_1 K) = Inr (product_Q_Kt Q K)"
  using assms unfolding matmul_2_3_def product_Q_Kt_def
  by (auto intro!: mk3_eqI sum.cong simp: permute_0_2_1_def)

lemma bmm_product:
  assumes "size0 A = size0 V" "size2 A = size1 V"
  shows "bmm A V = Inr (product_A_V A V)"
  using assms by (simp add: bmm_def product_A_V_def)

lemma energy_base:
  assumes "cols2 Q = size2 K"
  shows "energy sc emb Q K =
           Inr (if sc then div_scalar (product_Q_Kt Q K) (sqrt (real emb)) else product_Q_Kt Q K)"
  using assms by (simp add: energy_def matmul_permute)

lemma forward_single_head:
  assumes "constructed self" "\<not> ta_multihead self" "size1 H = ta_latent_doc_dim self" "0 < size2 H"
  shows "TargetAttention_forward self H =
           Inr (base_attention (ta_scale self) (ta_embedding_dim self) (self_Q self)
                  (key_value (conv_K self) H) (key_value (conv_V self) H),
                self\<lparr>K_alignment := Some (key_value (conv_K self) H),
                     Q_alignment := Some (Tensor2 (self_Q self))\<rparr>)"
proof -
  let ?d = "ta_latent_doc_dim self"
  have K: "conv_shape (conv_K self) ?d ?d 1" and V: "conv_shape (conv_V self) ?d ?d 1"
    and Q: "cols2 (self_Q self) = ?d"
    using assms(1) by (simp_all add: constructed_def)
  have dK: "size0 (conv_weight (conv_K self)) = ?d" using K by (simp add: conv_shape_def)
  show ?thesis
    unfolding TargetAttention_forward_def
    using assms(2) Q dK
    by (simp add: conv_pointwise[OF K assms(3,4)] conv_pointwise[OF V assms(3,4)]
        permute_elu_conv[OF K] permute_elu_conv[OF V] energy_base bmm_product
        base_attention_def Let_def)
qed

lemma forward_bad_shape:
  assumes "constructed self" "size1 H \<noteq> ta_latent_doc_dim self \<or> size2 H = 0"
  shows "TargetAttention_forward self H = Inl RuntimeError"
proof -
  have "size1 (conv_weight (conv_K self)) = ta_latent_doc_dim self"
    and "size2 (conv_weight (conv_K self)) = 1"
    using assms(1) by (simp_all add: constructed_def conv_shape_def)
  then have "Conv1d_forward (conv_K self) H = Inl RuntimeError"
    using assms(2) by (auto simp: Conv1d_forward_def Let_def)
  then show ?thesis by (simp add: TargetAttention_forward_def)
qed

subsection \<open>The example instance\<close>

lemma example_layer_constructed: "constructed example_layer"
  by (simp add: constructed_def example_layer_def example_conv_def example_Q_def conv_shape_def)

lemma example_layer_fields [simp]:
  "ta_multihead example_layer = False" "ta_latent_doc_dim example_layer = 1"
  "ta_scale example_layer = True" "ta_embedding_dim example_layer = 4"
  "self_Q example_layer = example_Q" "conv_K example_layer = example_conv"
  "conv_V example_layer = example_conv" "K_alignment example_layer = None"
  "Q_alignment example_layer = None"
  by (simp_all add: example_layer_def)

lemma example_H_sizes [simp]:
  "size0 example_H = 1" "size1 example_H = 1" "size2 example_H = 2"
  by (simp_all add: example_H_def)

lemma example_Q_sizes [simp]: "rows2 example_Q = 1" "cols2 example_Q = 1"
  by (simp_all add: example_Q_def)

lemma example_forward:
  "TargetAttention_forward example_layer example_H =
     Inr (base_attention True 4 example_Q (key_value example_conv example_H)
            (key_value example_conv example_H),
          example_layer\<lparr>K_alignment := Some (key_value example_conv example_H),
                        Q_alignment := Some (Tensor2 example_Q)\<rparr>)"
  using forward_single_head[OF example_layer_constructed, of example_H] by simp

lemma softmax_elem:
  "b < size0 E \<Longrightarrow> i < size1 E \<Longrightarrow> j < size2 E \<Longrightarrow>
     elem3 (softmax_last E) b i j = exp (elem3 E b i j) / (\<Sum>j'<size2 E. exp (elem3 E b i j'))"
  by (simp add: softmax_last_def)

lemma div_scalar_elem:
  "b < size0 E \<Longrightarrow> i < size1 E \<Longrightarrow> j < size2 E \<Longrightarrow>
     elem3 (div_scalar E r) b i j = elem3 E b i j / r"
  by (simp add: div_scalar_def)

lemma sum_below_2: "(\<Sum>j<(2::nat). f j) = f 0 + f (Suc 0)"
  by (simp add: numeral_2_eq_2)

text \<open>The energies of the example before scaling are 0 and 1.\<close>

lemma example_energy:
  "elem3 (product_Q_Kt example_Q (key_value example_conv example_H)) 0 0 0 = 0"
  "elem3 (product_Q_Kt example_Q (key_value example_conv example_H)) 0 0 (Suc 0) = 1"
  by (simp_all add: product_Q_Kt_def key_value_def example_Q_def example_conv_def example_H_def
      positional_projection_def elu_def)

lemma example_weight_scaled:
  "elem3 (snd (base_attention True 4 example_Q (key_value example_conv example_H)
                 (key_value example_conv example_H))) 0 0 0
     = 1 / (1 + exp (1 / 2))"
  by (simp add: base_attention_def Let_def softmax_elem div_scalar_elem sum_below_2
      example_energy)

lemma example_weight_unscaled:
  "elem3 (snd (unscaled_attention example_Q (key_value example_conv example_H)
                 (key_value example_conv example_H))) 0 0 0
     = 1 / (1 + exp 1)"
  by (simp add: unscaled_attention_def Let_def softmax_elem sum_below_2 example_energy)

subsection \<open>Claim C1\<close>

text \<open>
  Claim C1 as stated, refuted. The claim lists the steps of the base attention
  computation for every scale flag with the energy E the plain product of Q and
  the transpose of K. On the example instance, whose scale flag is set and whose
  embedding dimension is 4, the forward pass does not return what those steps
  give: its first attention weight is \<open>1 / (1 + exp (1 / 2))\<close>, theirs is
  \<open>1 / (1 + exp 1)\<close>.
\<close>

theorem forward_scaled_differs:
  "map_sum id fst (TargetAttention_forward example_layer example_H)
     \<noteq> Inr (unscaled_attention example_Q (key_value example_conv example_H)
              (key_value example_conv example_H))"
proof
  assume "map_sum id fst (TargetAttention_forward example_layer example_H)
     = Inr (unscaled_attention example_Q (key_value example_conv example_H)
              (key_value example_conv example_H))"
  then have "base_attention True 4 example_Q (key_value example_conv example_H)
                 (key_value example_conv example_H)
     = unscaled_attention example_Q (key_value example_conv example_H)
              (key_value example_conv example_H)"
    by (simp add: example_forward)
  then have "(1::real) / (1 + exp (1 / 2)) = 1 / (1 + exp 1)"
    using example_weight_scaled example_weight_unscaled by simp
  then have "exp (1 / 2 :: real) = exp 1"
    by (simp add: field_simps add_pos_pos)
  then show False by simp
qed

text \<open>
  Claim C1, amended. For an instance with the shapes its constructor gives, a
  positive embedding dimension and multihead disabled, the forward pass on any
  \<open>H\<close> raises the library's shape error when the channel axis of \<open>H\<close> is not
  latent_doc_dim or \<open>H\<close> has no sequence position, and otherwise returns exactly
  the result of these steps: K and V are the two per-position linear maps of \<open>H\<close>
  followed by ELU, sequence axis before channel axis; E is the batched product of
  Q with the transpose of K, divided elementwise by \<open>sqrt embedding_dim\<close> when the
  scale flag is set; A is the softmax of E along the last axis; C is the batched
  product of A with V.
\<close>

theorem forward_follows_base_attention:
  assumes "constructed self" "\<not> ta_multihead self" "0 < ta_embedding_dim self"
  shows "map_sum id fst (TargetAttention_forward self H) =
           (if size1 H = ta_latent_doc_dim self \<and> 0 < size2 H
            then Inr (base_attention (ta_scale self) (ta_embedding_dim self) (self_Q self)
                        (key_value (conv_K self) H) (key_value (conv_V self) H))
            else Inl RuntimeError)"
proof (cases "size1 H = ta_latent_doc_dim self \<and> 0 < size2 H")
  case True
  then show ?thesis using forward_single_head[OF assms(1,2), of H] by simp
next
  case False
  then have "size1 H \<noteq> ta_latent_doc_dim self \<or> size2 H = 0" by auto
  from forward_bad_shape[OF assms(1) this] False show ?thesis by simp
qed

theorem forward_follows_base_attention_witness:
  "constructed example_layer \<and> \<not> ta_multihead example_layer
   \<and> 0 < ta_embedding_dim example_layer
   \<and> map_sum id fst (TargetAttention_forward example_layer example_H) =
       Inr (base_attention True 4 example_Q (key_value example_conv example_H)
              (key_value example_conv example_H))"
  using forward_follows_base_attention[of example_layer example_H] example_layer_constructed
  by simp

section \<open>Attention weights\<close>

lemma softmax_row_sum:
  assumes "0 < size2 E" "b < size0 E" "i < size1 E"
  shows "(\<Sum>j<size2 E. elem3 (softmax_last E) b i j) = 1"
proof -
  let ?S = "\<Sum>j<size2 E. exp (elem3 E b i j)"
  have pos: "0 < ?S"
    using assms(1) by (intro sum_pos) auto
  have "(\<Sum>j<size2 E. elem3 (softmax_last E) b i j)
          = (\<Sum>j<size2 E. exp (elem3 E b i j) / ?S)"
    using assms(2,3) by (intro sum.cong) (simp_all add: softmax_elem)
  also have "\<dots> = ?S / ?S"
    by (rule sum_divide_distrib[symmetric])
  also have "\<dots> = 1" using pos by simp
  finally show ?thesis .
qed

lemma softmax_nonneg: "0 \<le> elem3 (softmax_last E) b i j"
  by (simp add: softmax_last_def mk3_def sum_nonneg)

lemma softmax_row_distribution:
  assumes "0 < size2 E" "b < size0 E" "i < size1 E"
  shows "row_distribution (softmax_last E) b i"
  using softmax_row_sum[OF assms] by (simp add: row_distribution_def softmax_nonneg)

text \<open>What a call that returns has gone through: sizes along the chain of operations.\<close>

lemma conv_Inr_size2: "Conv1d_forward m X = Inr Y \<Longrightarrow> 0 < size2 Y"
  by (auto simp: Conv1d_forward_def Let_def split: if_splits)

lemma energy_Inr_size2: "energy sc emb Q K = Inr E \<Longrightarrow> size2 E = size1 K"
  by (auto simp: energy_def matmul_2_3_def and_then_eq_Inr split: if_splits)

lemma energy_multihead_Inr_size2: "energy_multihead sc emb Q K = Inr E \<Longrightarrow> size2 E = size1 K"
  by (auto simp: energy_multihead_def bmm_def and_then_eq_Inr split: if_splits)

lemma transpose_qkv_Inr_size1: "transpose_qkv X nh = Inr Y \<Longrightarrow> size1 Y = size1 X"
  by (auto simp: transpose_qkv_def split: option.splits if_splits)

lemma Linear_Inr_size1: "Linear_forward m X = Inr Y \<Longrightarrow> size1 Y = size1 X"
  by (auto simp: Linear_forward_def Let_def split: if_splits)

text \<open>
  In either branch a call that returns has computed its weights as a softmax over
  at least one position, and has assigned the two alignment attributes.
\<close>

lemma forward_Inr:
  assumes "TargetAttention_forward self H = Inr ((C, A), self')"
  shows "\<exists>E K Q. A = softmax_last E \<and> 0 < size2 E
           \<and> self' = self\<lparr>K_alignment := Some K, Q_alignment := Some Q\<rparr>"
proof -
  from assms obtain KH VH where KH: "Conv1d_forward (conv_K self) H = Inr KH"
    and rest: "(let V = permute_0_2_1 (F_elu VH); Q = self_Q self; K = permute_0_2_1 (F_elu KH)
     in if ta_multihead self then
          let Q3 = unsqueeze_repeat Q (size0 K) in
          and_then (getattr (W_k self)) (\<lambda>Wk.
          and_then (Linear_forward Wk K) (\<lambda>WK.
          and_then (transpose_qkv WK (ta_num_heads self)) (\<lambda>K'.
          and_then (getattr (W_v self)) (\<lambda>Wv.
          and_then (Linear_forward Wv V) (\<lambda>WV.
          and_then (transpose_qkv WV (ta_num_heads self)) (\<lambda>V'.
          and_then (getattr (W_q self)) (\<lambda>Wq.
          and_then (Linear_forward Wq Q3) (\<lambda>WQ.
          and_then (transpose_qkv WQ (ta_num_heads self)) (\<lambda>Q'.
          and_then (energy_multihead (ta_scale self) (ta_embedding_dim self) Q' K') (\<lambda>E.
          let A = softmax_last E in
          and_then (bmm A V') (\<lambda>C.
          Inr ((C, A),
               self\<lparr>K_alignment := Some K', Q_alignment := Some (Tensor3 Q')\<rparr>))))))))))))
        else
          and_then (energy (ta_scale self) (ta_embedding_dim self) Q K) (\<lambda>E.
          let A = softmax_last E in
          and_then (bmm A V) (\<lambda>C.
          Inr ((C, A),
               self\<lparr>K_alignment := Some K, Q_alignment := Some (Tensor2 Q)\<rparr>)))) = Inr ((C, A), self')"
    unfolding TargetAttention_forward_def by (auto simp: and_then_eq_Inr Let_def)
  have L: "0 < size2 KH" using conv_Inr_size2[OF KH] .
  show ?thesis
  proof (cases "ta_multihead self")
    case False
    with rest obtain E where E: "energy (ta_scale self) (ta_embedding_dim self) (self_Q self)
          (permute_0_2_1 (F_elu KH)) = Inr E" and A: "A = softmax_last E"
      and s: "self' = self\<lparr>K_alignment := Some (permute_0_2_1 (F_elu KH)),
                 Q_alignment := Some (Tensor2 (self_Q self))\<rparr>"
      by (auto simp: and_then_eq_Inr Let_def)
    have "0 < size2 E" using energy_Inr_size2[OF E] L by simp
    then show ?thesis using A s by blast
  next
    case True
    with rest obtain Wk WK K' Q' E where "Linear_forward Wk (permute_0_2_1 (F_elu KH)) = Inr WK"
      and "transpose_qkv WK (ta_num_heads self) = Inr K'"
      and E: "energy_multihead (ta_scale self) (ta_embedding_dim self) Q' K' = Inr E"
      and A: "A = softmax_last E"
      and s: "self' = self\<lparr>K_alignment := Some K', Q_alignment := Some (Tensor3 Q')\<rparr>"
      by (auto simp: and_then_eq_Inr Let_def)
    then have "size1 K' = size2 KH"
      using Linear_Inr_size1 transpose_qkv_Inr_size1 by fastforce
    then have "0 < size2 E" using energy_multihead_Inr_size2[OF E] L by simp
    then show ?thesis using A s by blast
  qed
qed

lemma forward_rows:
  assumes "TargetAttention_forward self H = Inr ((C, A), self')" "b < size0 A" "i < size1 A"
  shows "row_distribution A b i"
proof -
  from forward_Inr[OF assms(1)] obtain E where "A = softmax_last E" "0 < size2 E"
    by blast
  then show ?thesis using assms(2,3) softmax_row_distribution[of E b i] by simp
qed

text \<open>
  The multi-head branch returns on every input of the right shape when the head
  count divides the latent dimension; its weights have one batch entry per head.
\<close>

lemma Linear_shape_forward:
  assumes "linear_shape m oc ic" "size2 X = ic"
  shows "\<exists>l Y. m = Some l \<and> Linear_forward l X = Inr Y \<and> size0 Y = size0 X
           \<and> size1 Y = size1 X \<and> size2 Y = oc"
  using assms
  by (cases m) (simp_all add: linear_shape_def Linear_forward_def Let_def)

lemma forward_multihead_returns:
  assumes c: "constructed self" and mh: "ta_multihead self"
    and nh: "ta_num_heads self = Some h" "0 < h" "h dvd ta_latent_doc_dim self"
    and H: "size1 H = ta_latent_doc_dim self" "0 < size2 H"
  shows "\<exists>C A self'. TargetAttention_forward self H = Inr ((C, A), self')
           \<and> (size0 A, size1 A, size2 A) = (size0 H * h, ta_num_labels self, size2 H)
           \<and> (size0 C, size1 C, size2 C)
               = (size0 H * h, ta_num_labels self, ta_latent_doc_dim self div h)"
proof -
  let ?d = "ta_latent_doc_dim self"
  have K: "conv_shape (conv_K self) ?d ?d 1" and V: "conv_shape (conv_V self) ?d ?d 1"
    and Q: "cols2 (self_Q self) = ?d" "rows2 (self_Q self) = ta_num_labels self"
    and Wk: "linear_shape (W_k self) ?d ?d" and Wv: "linear_shape (W_v self) ?d ?d"
    and Wq: "linear_shape (W_q self) ?d ?d"
    using c mh by (simp_all add: constructed_def)
  have dK: "size0 (conv_weight (conv_K self)) = ?d" "size0 (conv_weight (conv_V self)) = ?d"
    using K V by (simp_all add: conv_shape_def)
  let ?K = "key_value (conv_K self) H" and ?V = "key_value (conv_V self) H"
  let ?Q3 = "unsqueeze_repeat (self_Q self) (size0 ?K)"
  obtain lk WK where lk: "W_k self = Some lk" "Linear_forward lk ?K = Inr WK"
    "size0 WK = size0 H" "size1 WK = size2 H" "size2 WK = ?d"
    using Linear_shape_forward[OF Wk, of ?K] dK by auto
  obtain lv WV where lv: "W_v self = Some lv" "Linear_forward lv ?V = Inr WV"
    "size0 WV = size0 H" "size1 WV = size2 H" "size2 WV = ?d"
    using Linear_shape_forward[OF Wv, of ?V] dK by auto
  obtain lq WQ where lq: "W_q self = Some lq" "Linear_forward lq ?Q3 = Inr WQ"
    "size0 WQ = size0 H" "size1 WQ = ta_num_labels self" "size2 WQ = ?d"
    using Linear_shape_forward[OF Wq, of ?Q3] Q by (auto simp: unsqueeze_repeat_def)
  have t: "transpose_qkv WK (Some h) = Inr (split WK h)"
    "transpose_qkv WV (Some h) = Inr (split WV h)"
    "transpose_qkv WQ (Some h) = Inr (split WQ h)"
    using nh lk lv lq by (simp_all add: transpose_qkv_def)
  have e: "\<exists>E. energy_multihead (ta_scale self) (ta_embedding_dim self) (split WQ h) (split WK h)
             = Inr E \<and> (size0 E, size1 E, size2 E) = (size0 H * h, ta_num_labels self, size2 H)"
    using lk lq by (simp add: energy_multihead_def bmm_def)
  then obtain E where E: "energy_multihead (ta_scale self) (ta_embedding_dim self)
      (split WQ h) (split WK h) = Inr E" "size0 E = size0 H * h"
      "size1 E = ta_num_labels self" "size2 E = size2 H"
    by auto
  have b: "bmm (softmax_last E) (split WV h) = Inr (product_A_V (softmax_last E) (split WV h))"
    using E lv by (intro bmm_product) simp_all
  show ?thesis
    unfolding TargetAttention_forward_def
    using mh nh(1) lk lv lq t E b dK
    by (simp add: conv_pointwise[OF K H] conv_pointwise[OF V H]
        permute_elu_conv[OF K] permute_elu_conv[OF V] Let_def)
qed



section \<open>Scaling of the energy scores\<close>

lemma scale_related_div:
  "scale_related r m (and_then m (\<lambda>E. Inr (div_scalar E r)))"
  by (cases m) (simp_all add: scale_related_def elementwise_quotient_def div_scalar_elem)

text \<open>
  Claim C4. For every Q, K and configured positive embedding dimension, the energy
  matrix computed with the scale flag set is the energy matrix computed without it
  divided elementwise by \<open>sqrt embedding_dim\<close> (and one raises exactly when the other
  does), in the single-head and in the multi-head branch. The divisor is the
  configured embedding dimension, whatever the channel dimension of Q and K.
\<close>

theorem scaled_energy_is_quotient:
  assumes "0 < embedding_dim"
  shows "scale_related (sqrt (real embedding_dim))
           (energy False embedding_dim Q K) (energy True embedding_dim Q K)
         \<and> scale_related (sqrt (real embedding_dim))
           (energy_multihead False embedding_dim Q3 K) (energy_multihead True embedding_dim Q3 K)"
  by (simp add: energy_def energy_multihead_def scale_related_div)

theorem scaled_energy_is_quotient_witness:
  "(0::nat) < 4
   \<and> scale_related (sqrt (real 4))
       (energy False 4 example_Q (key_value example_conv example_H))
       (energy True 4 example_Q (key_value example_conv example_H))
   \<and> scale_related (sqrt (real 4))
       (energy_multihead False 4 (unsqueeze_repeat example_Q 1) (key_value example_conv example_H))
       (energy_multihead True 4 (unsqueeze_repeat example_Q 1) (key_value example_conv example_H))"
  using scaled_energy_is_quotient[of 4 example_Q "key_value example_conv example_H"
      "unsqueeze_repeat example_Q 1"]
  by simp

text \<open>
  On the example, whose channel dimension is 1 and whose embedding dimension is 4,
  the scaled energy of the second position is 1 / 2: the unscaled energy 1 divided
  by \<open>sqrt 4\<close>, not by \<open>sqrt 1\<close>.
\<close>

lemma example_scaled_energy:
  "energy True 4 example_Q (key_value example_conv example_H) =
     Inr (div_scalar (product_Q_Kt example_Q (key_value example_conv example_H)) 2)"
  by (simp add: energy_base example_conv_def)

lemma example_scaled_energy_entry:
  "elem3 (div_scalar (product_Q_Kt example_Q (key_value example_conv example_H)) 2) 0 0 (Suc 0)
     = 1 / 2"
  by (simp add: div_scalar_elem example_energy)

section \<open>The query of the target variant\<close>

lemma map_sum_and_then:
  "map_sum id g (and_then m f) = and_then m (\<lambda>x. map_sum id g (f x))"
  by (cases m) simp_all

text \<open>What the constructor leaves: the query is the copy of the weight of \<open>Q_mat\<close>.\<close>

lemma init_Inr:
  assumes "TargetAttention_init n e d sc mh nh rnd = Inr self"
  shows "self_Q self = lin_weight (Q_mat self)" "constructed self"
    "K_alignment self = None" "Q_alignment self = None"
    "ta_num_labels self = n" "ta_latent_doc_dim self = d" "ta_multihead self = mh"
    "ta_scale self = sc" "ta_embedding_dim self = e"
  using assms
  by (auto simp: TargetAttention_init_def xavier_conv1d_def xavier_linear_def xavier_uniform_def
      and_then_eq_Inr Let_def constructed_def conv_shape_def linear_shape_def split: if_splits)

lemma init_returns:
  assumes "0 < d"
  shows "\<exists>self. TargetAttention_init n e d sc mh nh rnd = Inr self"
  using assms
  by (simp add: TargetAttention_init_def xavier_conv1d_def xavier_linear_def xavier_uniform_def
      Let_def)

text \<open>
  Claim C7, which the code does not meet. The claim: any update to the trainable
  query weights of the target variant is reflected in the Q used on subsequent
  forward calls. The code: the forward pass reads the attribute \<open>Q\<close>, a copy taken
  in the constructor, and never the weight of \<open>Q_mat\<close>, which is what training
  updates. Whatever \<open>Q_mat\<close> is replaced by, the forward pass returns the same
  (C, A), or raises the same error, as before the replacement.
\<close>

theorem forward_ignores_Q_mat:
  "map_sum id fst (TargetAttention_forward (self\<lparr>Q_mat := q\<rparr>) H)
     = map_sum id fst (TargetAttention_forward self H)"
  by (simp add: TargetAttention_forward_def map_sum_and_then Let_def if_distrib cong: if_cong)

text \<open>
  On the example: after the weight of \<open>Q_mat\<close> has moved from 1 to 2 the forward pass
  still uses, and records as \<open>Q_alignment\<close>, the query with entry 1.
\<close>

lemma example_stale_query:
  "lin_weight (Q_mat (example_layer\<lparr>Q_mat := example_trained_Q_mat\<rparr>)) \<noteq> example_Q"
  "map_sum id (\<lambda>r. Q_alignment (snd r))
     (TargetAttention_forward (example_layer\<lparr>Q_mat := example_trained_Q_mat\<rparr>) example_H)
     = Inr (Some (Tensor2 example_Q))"
proof -
  have "elem2 (mk2 1 1 (\<lambda>i c. 2)) 0 0 \<noteq> elem2 (mk2 1 1 (\<lambda>i c. 1)) 0 0"
    by simp
  then have "mk2 1 1 (\<lambda>i c. 2) \<noteq> mk2 1 1 (\<lambda>i c. 1)"
    by metis
  then show "lin_weight (Q_mat (example_layer\<lparr>Q_mat := example_trained_Q_mat\<rparr>)) \<noteq> example_Q"
    by (simp add: example_trained_Q_mat_def example_Q_def)
  have c: "constructed (example_layer\<lparr>Q_mat := example_trained_Q_mat\<rparr>)"
    by (simp add: constructed_def example_layer_def example_conv_def example_Q_def
        conv_shape_def)
  show "map_sum id (\<lambda>r. Q_alignment (snd r))
     (TargetAttention_forward (example_layer\<lparr>Q_mat := example_trained_Q_mat\<rparr>) example_H)
     = Inr (Some (Tensor2 example_Q))"
    using forward_single_head[OF c, of example_H] by simp
qed

section \<open>Instance attributes across a forward pass\<close>




section \<open>Shape errors\<close>

lemma dispatcher_propagates:
  assumes "attention_layer d = Some (TargetLayer t)" "TargetAttention_forward t H = Inl e"
  shows "isl (Attention_forward d H)"
proof (cases "a_att_module d = ''target'' \<and> dispatcher_Q d = None")
  case True
  then show ?thesis by (simp add: Attention_forward_def)
next
  case False
  then show ?thesis using assms
    by (cases "dispatcher_Q d") (auto simp: Attention_forward_def call_layer_def)
qed

text \<open>
  Claim C9. For every input \<open>H\<close> whose channel axis is not the configured
  latent_doc_dim, calling forward raises at call time the shape error of the
  tensor library (its RuntimeError; the sources define no exception class of their
  own), and no (C, A) is produced: by the attention layer itself, and by every
  dispatcher that holds it.
\<close>

theorem forward_rejects_channel_mismatch:
  assumes "constructed self" "size1 H \<noteq> ta_latent_doc_dim self"
  shows "TargetAttention_forward self H = Inl RuntimeError
         \<and> (\<forall>d. attention_layer d = Some (TargetLayer self) \<longrightarrow> isl (Attention_forward d H))"
  using forward_bad_shape[OF assms(1), of H] assms(2) dispatcher_propagates by blast

lemma example_dispatcher_fields [simp]:
  "a_multihead example_dispatcher = False" "a_att_module example_dispatcher = ''target''"
  "attention_layer example_dispatcher = Some (TargetLayer example_layer)"
  "dispatcher_Q example_dispatcher = Some example_Q"
  by (simp_all add: example_dispatcher_def)

theorem forward_rejects_channel_mismatch_witness:
  "constructed example_layer \<and> size1 example_H_wide \<noteq> ta_latent_doc_dim example_layer
   \<and> TargetAttention_forward example_layer example_H_wide = Inl RuntimeError
   \<and> isl (Attention_forward example_dispatcher example_H_wide)"
  using forward_rejects_channel_mismatch[of example_layer example_H_wide]
    example_layer_constructed
  by (simp add: example_H_wide_def)

section \<open>The single-head dispatcher\<close>

lemma single_head_forward_error:
  assumes "\<not> a_multihead self" "layer_of_variant self"
  shows "Attention_forward self H =
           Inl (if a_att_module self = ''target''
                then (if dispatcher_Q self = None \<or> attention_layer self = None
                      then AttributeError else TypeError)
                else (if attention_layer self = None then AttributeError
                      else UnboundLocalError))"
  using assms
  by (cases "dispatcher_Q self"; cases "attention_layer self")
     (auto simp: Attention_forward_def layer_of_variant_def call_layer_def
        split: layer.splits)

text \<open>
  Claim C10. For every dispatcher with multihead disabled, every call to forward
  raises and returns no (C, A). When the variant is not \<open>target\<close> and the dispatcher
  has an attention layer, the local variable \<open>Q\<close> is read before it was assigned
  (UnboundLocalError). When the variant is \<open>target\<close> and the dispatcher has its query
  and its layer, the layer is called with the keyword argument \<open>Q\<close>, which
  \<open>TargetAttention.forward\<close> does not take (TypeError). A dispatcher that lacks the
  attribute the call reads first raises AttributeError.
\<close>

theorem single_head_dispatcher_raises:
  assumes "\<not> a_multihead self" "layer_of_variant self"
  shows "Attention_forward self H =
           Inl (if a_att_module self = ''target''
                then (if dispatcher_Q self = None \<or> attention_layer self = None
                      then AttributeError else TypeError)
                else (if attention_layer self = None then AttributeError
                      else UnboundLocalError))"
  using single_head_forward_error[OF assms] .

theorem single_head_dispatcher_raises_witness:
  "\<not> a_multihead example_dispatcher \<and> layer_of_variant example_dispatcher
   \<and> Attention_forward example_dispatcher example_H = Inl TypeError
   \<and> \<not> a_multihead example_label_dispatcher \<and> layer_of_variant example_label_dispatcher
   \<and> Attention_forward example_label_dispatcher example_H = Inl UnboundLocalError"
  using single_head_dispatcher_raises[of example_dispatcher example_H]
    single_head_dispatcher_raises[of example_label_dispatcher example_H]
  by (simp add: layer_of_variant_def example_label_dispatcher_def example_absent_layer_def)

text \<open>The second dispatcher of the witness is one the constructor returns.\<close>

lemma example_label_dispatcher_constructed:
  "Attention_init label_args example_draws (\<lambda>class_name args. Inr example_absent_layer)
     = Inr example_label_dispatcher"
  by (simp add: Attention_init_def label_args_def example_label_dispatcher_def Let_def)

section \<open>Construction of the dispatcher\<close>

lemma isl_and_then: "(\<And>x. isl (f x)) \<Longrightarrow> isl (and_then m f)"
  by (cases m) simp_all

text \<open>No dispatcher of variant \<open>target\<close> is ever returned by the constructor.\<close>

lemma target_construction_raises:
  assumes "a_att_module args = ''target''"
  shows "isl (Attention_init args rnd absent_class)"
  using assms
  by (auto simp: Attention_init_def Let_def Tensor_weight_def intro!: isl_and_then)

text \<open>What the constructor guarantees of a dispatcher it returns.\<close>

lemma init_dispatcher:
  assumes "Attention_init args rnd absent_class = Inr self"
  shows "a_att_module self \<noteq> ''target''" "a_att_module self = a_att_module args"
    "a_multihead self = a_multihead args" "layer_of_variant self"
    "a_att_module args \<notin> set recognized \<Longrightarrow> attention_layer self = None"
    "a_att_module args \<in> set recognized \<Longrightarrow> attention_layer self \<noteq> None"
proof -
  have nt: "a_att_module args \<noteq> ''target''"
    using assms target_construction_raises[of args rnd absent_class] by auto
  show "a_att_module self = a_att_module args" "a_multihead self = a_multihead args"
    using assms nt
    by (auto simp: Attention_init_def Let_def and_then_eq_Inr split: if_splits)
  then show "a_att_module self \<noteq> ''target''" using nt by simp
  then show "layer_of_variant self"
    by (auto simp: layer_of_variant_def split: option.splits layer.splits)
  show "a_att_module args \<notin> set recognized \<Longrightarrow> attention_layer self = None"
    using assms
    by (auto simp: Attention_init_def Let_def recognized_def split: if_splits)
  show "a_att_module args \<in> set recognized \<Longrightarrow> attention_layer self \<noteq> None"
    using assms nt
    by (auto simp: Attention_init_def Let_def recognized_def and_then_eq_Inr split: if_splits)
qed

text \<open>Every single-head dispatcher the constructor returns raises on every call.\<close>

lemma constructed_single_head_raises:
  assumes "Attention_init args rnd absent_class = Inr self" "\<not> a_multihead args"
  shows "Attention_forward self H =
           Inl (if a_att_module args \<in> set recognized then UnboundLocalError else AttributeError)"
proof -
  note i = init_dispatcher[OF assms(1)]
  have "attention_layer self = None \<longleftrightarrow> a_att_module args \<notin> set recognized"
    using i(5,6) by blast
  then show ?thesis
    using single_head_forward_error[of self H] i(1-4) assms(2) by simp
qed

text \<open>
  Claim C3, which the code does not meet. The claim: with 4 labels, embedding
  dimension 8, latent dimension 8, variant \<open>target\<close>, no scaling and multihead
  disabled, forward(H) on a batch of 2 documents of length 6 returns (C, A) of
  shapes (2, 4, 8) and (2, 4, 6) with every row of A summing to 1. The code: the
  constructor of the dispatcher raises AttributeError for this configuration,
  whatever the random draws, when it reads \<open>weight\<close> of the layer's query tensor;
  no dispatcher exists on which forward could be called.
\<close>

theorem scenario_construction_raises:
  "Attention_init scenario_args rnd absent_class = Inl AttributeError"
proof -
  obtain l where "TargetAttention_init 4 8 8 False False None rnd = Inr l"
    using init_returns[of 8 4 8 False False None rnd] by auto
  then show ?thesis
    by (simp add: Attention_init_def scenario_args_def Let_def Tensor_weight_def)
qed

text \<open>
  The attention layer of the scenario, built and called on its own, does return
  what the claim describes.
\<close>

lemma scenario_layer_alone:
  assumes "TargetAttention_init 4 8 8 False False None rnd = Inr l"
    and "size0 H = 2" "size1 H = 8" "size2 H = 6"
  shows "\<exists>C A l'. TargetAttention_forward l H = Inr ((C, A), l')
           \<and> (size0 C, size1 C, size2 C) = (2, 4, 8)
           \<and> (size0 A, size1 A, size2 A) = (2, 4, 6)
           \<and> (\<forall>b<2. \<forall>i<4. row_distribution A b i)"
proof -
  note i = init_Inr[OF assms(1)]
  let ?CA = "base_attention False 8 (self_Q l) (key_value (conv_K l) H) (key_value (conv_V l) H)"
  have f: "TargetAttention_forward l H =
           Inr ((fst ?CA, snd ?CA),
                l\<lparr>K_alignment := Some (key_value (conv_K l) H),
                     Q_alignment := Some (Tensor2 (self_Q l))\<rparr>)"
    using forward_single_head[of l H] i assms(2-4) by simp
  have q: "rows2 (self_Q l) = 4" and v: "size0 (conv_weight (conv_V l)) = 8"
    using i(2,5,6) by (simp_all add: constructed_def conv_shape_def)
  have d: "\<forall>b<2. \<forall>i<4. row_distribution (snd ?CA) b i"
    using forward_rows[OF f] q assms(2-4) by simp
  show ?thesis
    using f q v assms(2-4) d
    by (intro exI[of _ "fst ?CA"] exI[of _ "snd ?CA"] exI) simp
qed




end
